theory Spec2Isabelle
  imports Main "HOL-Library.AList"
begin

section \<open>Values, exceptions and the outside world\<close>

text \<open>
  Payloads and results are Python objects built from JSON-compatible values
  (\<open>Dict[str, Any]\<close>). A dict keeps its insertion order, so it is an association
  list; \<open>map_of\<close> is the lookup and \<open>AList.update\<close> the assignment \<open>d[k] = v\<close>
  (an existing key keeps its place, a new key goes to the end). Python's \<open>None\<close> is
  \<open>JNull\<close>. Floating-point payload values are left out.
\<close>

datatype json =
    JNull
  | JBool bool
  | JInt int
  | JStr string
  | JList "json list"
  | JDict "(string \<times> json) list"

text \<open>
  Only subclasses of Python's \<open>Exception\<close> occur; an exception is its class and its
  message, and \<open>str(e)\<close> is the message.
\<close>

datatype exn_class =
  ValueError | RuntimeError | AttributeError | TypeError | ConnectionError | Exception

datatype exn = Exn exn_class string

fun str_exn :: "exn \<Rightarrow> string" where
  "str_exn (Exn c m) = m"

type_synonym datetime = nat

definition digit_char :: "nat \<Rightarrow> char" where
  "digit_char d = ''0123456789'' ! d"

fun str_nat :: "nat \<Rightarrow> string" where
  "str_nat n = (if n < 10 then [digit_char n] else str_nat (n div 10) @ [digit_char (n mod 10)])"

declare str_nat.simps [simp del]

definition str_int :: "int \<Rightarrow> string" where
  "str_int i = (if i < 0 then CHR ''-'' # str_nat (nat (- i)) else str_nat (nat i))"

text \<open>
  Everything the code reads from outside is a field of the world: the clock
  (\<open>now w n\<close> is what the \<open>n\<close>-th call of \<open>datetime.now()\<close> returns, in microseconds),
  Python's renderings of a timestamp (\<open>str(dt.timestamp())\<close>), of a datetime
  (\<open>dt.isoformat()\<close>) and of a payload value (\<open>str(v)\<close>), the three handlers of the
  requirements agent (which call a generative model), the settings, and the HTTP
  exchanges of the service registry.
\<close>

record world =
  now :: "nat \<Rightarrow> datetime"
  timestamp_str :: "datetime \<Rightarrow> string"
  isoformat :: "datetime \<Rightarrow> string"
  py_str :: "json \<Rightarrow> string"
  extract_requirements :: "json \<Rightarrow> exn + json"
  validate_requirements :: "json \<Rightarrow> exn + json"
  prioritize_requirements :: "json \<Rightarrow> exn + json"
  gemini_api_key :: bool
  genai_configure :: "exn option"
  mcp_endpoint :: "string \<Rightarrow> string"
  http_get_health :: "string \<Rightarrow> exn + nat"
  http_post_send :: "string \<Rightarrow> json \<Rightarrow> exn + nat \<times> string"
  response_json :: "string \<Rightarrow> exn + json"

text \<open>\<open>d.get(key, default)\<close>; on a value that is not a dict the attribute is missing.\<close>

fun py_type_name :: "json \<Rightarrow> string" where
  "py_type_name JNull = ''NoneType''"
| "py_type_name (JBool b) = ''bool''"
| "py_type_name (JInt i) = ''int''"
| "py_type_name (JStr s) = ''str''"
| "py_type_name (JList xs) = ''list''"
| "py_type_name (JDict kvs) = ''dict''"

fun dict_get :: "json \<Rightarrow> string \<Rightarrow> json \<Rightarrow> exn + json" where
  "dict_get (JDict kvs) key dflt =
     (case map_of kvs key of None \<Rightarrow> Inr dflt | Some v \<Rightarrow> Inr v)"
| "dict_get v key dflt =
     Inl (Exn AttributeError
       ([CHR 0x27] @ py_type_name v @ [CHR 0x27] @ '' object has no attribute '' @
        [CHR 0x27] @ ''get'' @ [CHR 0x27]))"

section \<open>Agents\<close>

datatype AgentType = REQUIREMENTS | PLANNING | DEVELOPMENT | TESTING | COMMUNICATION

fun agent_type_value :: "AgentType \<Rightarrow> string" where
  "agent_type_value REQUIREMENTS = ''requirements''"
| "agent_type_value PLANNING = ''planning''"
| "agent_type_value DEVELOPMENT = ''development''"
| "agent_type_value TESTING = ''testing''"
| "agent_type_value COMMUNICATION = ''communication''"

text \<open>
  \<open>f"{task.agent_type}"\<close> for a member of the \<open>str\<close>-mixed enum, as current Python
  versions print it (versions before 3.11 print the member's value instead).
\<close>

fun agent_type_format :: "AgentType \<Rightarrow> string" where
  "agent_type_format REQUIREMENTS = ''AgentType.REQUIREMENTS''"
| "agent_type_format PLANNING = ''AgentType.PLANNING''"
| "agent_type_format DEVELOPMENT = ''AgentType.DEVELOPMENT''"
| "agent_type_format TESTING = ''AgentType.TESTING''"
| "agent_type_format COMMUNICATION = ''AgentType.COMMUNICATION''"

text \<open>
  The five agent classes. Every object carries \<open>is_initialized\<close>; the requirements agent
  also \<open>gemini_model\<close> (here: whether a model object is set). The reference to the
  service registry that the constructors store is not read by any code modelled here.
\<close>

datatype agent =
    RequirementsAgent bool bool
  | PlanningAgent bool
  | DevelopmentAgent bool
  | TestingAgent bool
  | CommunicationAgent bool

fun agent_class_name :: "agent \<Rightarrow> string" where
  "agent_class_name (RequirementsAgent i g) = ''RequirementsAgent''"
| "agent_class_name (PlanningAgent i) = ''PlanningAgent''"
| "agent_class_name (DevelopmentAgent i) = ''DevelopmentAgent''"
| "agent_class_name (TestingAgent i) = ''TestingAgent''"
| "agent_class_name (CommunicationAgent i) = ''CommunicationAgent''"

text \<open>\<open>RequirementsAgent.execute_task\<close> (requirements\_agent.py, lines 55 to 69).\<close>

definition RequirementsAgent_execute_task :: "world \<Rightarrow> bool \<Rightarrow> json \<Rightarrow> exn + json" where
  "RequirementsAgent_execute_task w is_init task_data =
     (if \<not> is_init then Inl (Exn RuntimeError ''Requirements Agent not initialized'')
      else case dict_get task_data ''analysis_type'' (JStr ''requirements_extraction'') of
        Inl e \<Rightarrow> Inl e
      | Inr task_type \<Rightarrow>
          if task_type = JStr ''requirements_extraction'' then extract_requirements w task_data
          else if task_type = JStr ''requirements_validation'' then validate_requirements w task_data
          else if task_type = JStr ''requirements_prioritization'' then prioritize_requirements w task_data
          else Inl (Exn ValueError (''Unknown task type: '' @ py_str w task_type)))"

text \<open>
  \<open>agent.execute_task(task_data)\<close> as the orchestrator calls it on whatever object is
  registered. Only \<open>RequirementsAgent\<close> defines the method; on an object of the four
  other classes the attribute lookup raises \<open>AttributeError\<close>.
\<close>

definition no_execute_task :: "agent \<Rightarrow> exn" where
  "no_execute_task a =
     Exn AttributeError
       ([CHR 0x27] @ agent_class_name a @ [CHR 0x27] @ '' object has no attribute '' @
        [CHR 0x27] @ ''execute_task'' @ [CHR 0x27])"

fun agent_execute_task :: "world \<Rightarrow> agent \<Rightarrow> json \<Rightarrow> exn + json" where
  "agent_execute_task w (RequirementsAgent i g) task_data = RequirementsAgent_execute_task w i task_data"
| "agent_execute_task w a task_data = Inl (no_execute_task a)"

section \<open>The orchestrator's state\<close>

record AgentTask =
  task_id :: string
  agent_type :: AgentType
  project_id :: int
  task_data :: json
  priority :: string
  status :: string
  created_at :: "datetime option"
  completed_at :: "datetime option"
  result :: json
  error :: "string option"

text \<open>The records the module's logger receives, in order.\<close>

datatype log_event =
    LogInitializing
  | LogAgentInitialized AgentType
  | LogInitialized
  | LogCleaningUp
  | LogAgentCleanedUp AgentType
  | LogCleanupCompleted
  | LogCreated string AgentType
  | LogExecuting string AgentType
  | LogCompleted string
  | LogFailed string string
  | LogWorkflowStarting int
  | LogWorkflowCompleted int

record connection =
  conn_endpoint :: string
  conn_status :: string
  conn_last_check :: datetime
  conn_error :: "string option"

record MCPManager =
  connections :: "(string \<times> connection) list"
  endpoints :: "(string \<times> string) list"
  mcp_is_initialized :: bool
  session :: bool

text \<open>
  \<open>AgentManager\<close>: its four attributes, the number of clock readings made so far and
  the log.
\<close>

record AgentManager =
  agents :: "(AgentType \<times> agent) list"
  tasks :: "(string \<times> AgentTask) list"
  mcp_manager :: "MCPManager option"
  is_initialized :: bool
  ticks :: nat
  log :: "log_event list"

definition AgentManager_new :: AgentManager where
  "AgentManager_new =
     \<lparr>agents = [], tasks = [], mcp_manager = None, is_initialized = False, ticks = 0, log = []\<rparr>"

section \<open>Tasks\<close>

text \<open>\<open>AgentManager.create_task\<close> (agent\_manager.py, lines 86 to 102).\<close>

definition create_task ::
  "world \<Rightarrow> AgentManager \<Rightarrow> AgentType \<Rightarrow> int \<Rightarrow> json \<Rightarrow> string \<Rightarrow> string \<times> AgentManager" where
  "create_task w s atype pid data prio =
     (let tid = agent_type_value atype @ ''_'' @ str_int pid @ ''_'' @
                  timestamp_str w (now w (ticks s));
          task = \<lparr>task_id = tid, agent_type = atype, project_id = pid, task_data = data,
                  priority = prio, status = ''pending'',
                  created_at = Some (now w (ticks s + 1)), completed_at = None,
                  result = JNull, error = None\<rparr>
      in (tid, s\<lparr>tasks := AList.update tid task (tasks s),
                 ticks := ticks s + 2,
                 log := log s @ [LogCreated tid atype]\<rparr>))"

text \<open>
  \<open>AgentManager.execute_task\<close> (lines 104 to 132). The task object is mutated in place:
  first \<open>running\<close>, then the outcome; the exception is re-raised as it is.
\<close>

definition execute_task :: "world \<Rightarrow> AgentManager \<Rightarrow> string \<Rightarrow> (exn + json) \<times> AgentManager" where
  "execute_task w s tid =
     (case map_of (tasks s) tid of
        None \<Rightarrow> (Inl (Exn ValueError (''Task '' @ tid @ '' not found'')), s)
      | Some task \<Rightarrow>
          (case map_of (agents s) (agent_type task) of
             None \<Rightarrow>
               (Inl (Exn ValueError
                  (''Agent type '' @ agent_type_format (agent_type task) @ '' not found'')), s)
           | Some agent \<Rightarrow>
               (let running = task\<lparr>status := ''running''\<rparr>;
                    s1 = s\<lparr>log := log s @ [LogExecuting tid (agent_type task)],
                           tasks := AList.update tid running (tasks s)\<rparr>
                in case agent_execute_task w agent (task_data running) of
                     Inr res \<Rightarrow>
                       (Inr res,
                        s1\<lparr>tasks := AList.update tid
                               (running\<lparr>status := ''completed'',
                                        completed_at := Some (now w (ticks s1)),
                                        result := res\<rparr>) (tasks s1),
                            ticks := ticks s1 + 1,
                            log := log s1 @ [LogCompleted tid]\<rparr>)
                   | Inl e \<Rightarrow>
                       (Inl e,
                        s1\<lparr>tasks := AList.update tid
                               (running\<lparr>status := ''failed'', error := Some (str_exn e)\<rparr>)
                               (tasks s1),
                            log := log s1 @ [LogFailed tid (str_exn e)]\<rparr>))))"

text \<open>\<open>AgentManager.get_task_status\<close> (lines 242 to 256), the returned dict as a record.\<close>

record task_status =
  st_id :: string
  st_agent_type :: string
  st_status :: string
  st_created_at :: "string option"
  st_completed_at :: "string option"
  st_error :: "string option"
  st_result :: json

definition get_task_status :: "world \<Rightarrow> AgentManager \<Rightarrow> string \<Rightarrow> task_status option" where
  "get_task_status w s tid =
     (case map_of (tasks s) tid of
        None \<Rightarrow> None
      | Some task \<Rightarrow>
          Some \<lparr>st_id = task_id task,
                st_agent_type = agent_type_value (agent_type task),
                st_status = status task,
                st_created_at = map_option (isoformat w) (created_at task),
                st_completed_at = map_option (isoformat w) (completed_at task),
                st_error = error task,
                st_result = result task\<rparr>)"

section \<open>Workflows\<close>

text \<open>
  \<open>AgentManager.execute_workflow\<close> (lines 134 to 186). The method is five blocks of the
  same shape, one per row of \<open>workflow_stages\<close>, run in this order: if the key is in
  \<open>workflow_data\<close>, create a task of the capability from the sub-payload (default
  priority), execute it, and store the result under the key. Nothing catches an exception
  of \<open>execute_task\<close>, so the first one ends the call.
\<close>

definition workflow_stages :: "(string \<times> AgentType) list" where
  "workflow_stages =
     [(''requirements'', REQUIREMENTS), (''planning'', PLANNING), (''development'', DEVELOPMENT),
      (''testing'', TESTING), (''communication'', COMMUNICATION)]"

fun run_stages ::
  "world \<Rightarrow> int \<Rightarrow> (string \<times> json) list \<Rightarrow> (string \<times> AgentType) list \<Rightarrow>
   (string \<times> json) list \<Rightarrow> AgentManager \<Rightarrow> (exn + (string \<times> json) list) \<times> AgentManager" where
  "run_stages w pid workflow_data [] workflow_results s = (Inr workflow_results, s)"
| "run_stages w pid workflow_data ((key, atype) # rest) workflow_results s =
     (case map_of workflow_data key of
        None \<Rightarrow> run_stages w pid workflow_data rest workflow_results s
      | Some sub \<Rightarrow>
          (case create_task w s atype pid sub ''medium'' of
             (tid, s1) \<Rightarrow>
               (case execute_task w s1 tid of
                  (Inl e, s2) \<Rightarrow> (Inl e, s2)
                | (Inr res, s2) \<Rightarrow>
                    run_stages w pid workflow_data rest
                      (AList.update key res workflow_results) s2)))"

definition execute_workflow ::
  "world \<Rightarrow> AgentManager \<Rightarrow> int \<Rightarrow> (string \<times> json) list \<Rightarrow>
   (exn + (string \<times> json) list) \<times> AgentManager" where
  "execute_workflow w s pid workflow_data =
     (case run_stages w pid workflow_data workflow_stages []
             (s\<lparr>log := log s @ [LogWorkflowStarting pid]\<rparr>) of
        (Inl e, s') \<Rightarrow> (Inl e, s')
      | (Inr workflow_results, s') \<Rightarrow>
          (Inr workflow_results, s'\<lparr>log := log s' @ [LogWorkflowCompleted pid]\<rparr>))"

section \<open>The service registry\<close>

definition service_names :: "string list" where
  "service_names =
     [''slack'', ''whatsapp'', ''webex'', ''notion'', ''github'', ''postgresql'',
      ''filesystem'', ''docker'', ''redis'', ''tldv'']"

text \<open>\<open>MCPManager.__init__\<close>: one endpoint per service name, read from the settings.\<close>

definition MCPManager_new :: "world \<Rightarrow> MCPManager" where
  "MCPManager_new w =
     \<lparr>connections = [], endpoints = map (\<lambda>n. (n, mcp_endpoint w n)) service_names,
      mcp_is_initialized = False, session = False\<rparr>"

text \<open>
  One round of the probing loop of \<open>MCPManager.initialize\<close> (lines 42 to 66): the
  connection recorded for an endpoint, with the clock read at tick \<open>n\<close>.
\<close>

definition probe :: "world \<Rightarrow> nat \<Rightarrow> string \<Rightarrow> connection" where
  "probe w n endpoint =
     (case http_get_health w endpoint of
        Inr st \<Rightarrow>
          if st = 200
          then \<lparr>conn_endpoint = endpoint, conn_status = ''connected'',
                conn_last_check = now w n, conn_error = None\<rparr>
          else \<lparr>conn_endpoint = endpoint, conn_status = ''error'',
                conn_last_check = now w n, conn_error = None\<rparr>
      | Inl e \<Rightarrow>
          \<lparr>conn_endpoint = endpoint, conn_status = ''error'',
           conn_last_check = now w n, conn_error = Some (str_exn e)\<rparr>)"

fun probe_all ::
  "world \<Rightarrow> (string \<times> string) list \<Rightarrow> (string \<times> connection) list \<Rightarrow> nat \<Rightarrow>
   (string \<times> connection) list \<times> nat" where
  "probe_all w [] conns n = (conns, n)"
| "probe_all w ((service_name, endpoint) # rest) conns n =
     probe_all w rest (AList.update service_name (probe w n endpoint) conns) (Suc n)"

text \<open>
  \<open>MCPManager.initialize\<close> (lines 31 to 69); the number of clock readings goes in and
  comes out.
\<close>

definition MCPManager_initialize :: "world \<Rightarrow> MCPManager \<Rightarrow> nat \<Rightarrow> MCPManager \<times> nat" where
  "MCPManager_initialize w m n =
     (if mcp_is_initialized m then (m, n)
      else case probe_all w (endpoints m) (connections m) n of
        (conns, n') \<Rightarrow>
          (m\<lparr>session := True, connections := conns, mcp_is_initialized := True\<rparr>, n'))"

text \<open>\<open>MCPManager.cleanup\<close> (lines 71 to 80); the closed session object stays set.\<close>

definition MCPManager_cleanup :: "MCPManager \<Rightarrow> MCPManager" where
  "MCPManager_cleanup m = m\<lparr>connections := [], mcp_is_initialized := False\<rparr>"

text \<open>\<open>MCPManager.send_message\<close> (lines 82 to 104).\<close>

definition send_message ::
  "world \<Rightarrow> MCPManager \<Rightarrow> string \<Rightarrow> json \<Rightarrow> (exn + json) \<times> MCPManager" where
  "send_message w m service message_data =
     (case map_of (connections m) service of
        None \<Rightarrow> (Inl (Exn ValueError (''Service '' @ service @ '' not available'')), m)
      | Some conn \<Rightarrow>
          if conn_status conn \<noteq> ''connected''
          then (Inl (Exn ConnectionError (''Service '' @ service @ '' not connected'')), m)
          else (case http_post_send w (conn_endpoint conn) message_data of
                  Inl e \<Rightarrow> (Inl e, m)
                | Inr (st, body) \<Rightarrow>
                    if st = 200
                    then (case response_json w body of
                            Inl e \<Rightarrow> (Inl e, m)
                          | Inr res \<Rightarrow> (Inr res, m))
                    else (Inl (Exn Exception (''Failed to send message: '' @ body)), m)))"

text \<open>
  Every recorded connection belongs to a configured endpoint. This holds of a new
  registry and is kept by \<open>initialize\<close> and \<open>cleanup\<close>, the only writers of
  \<open>connections\<close>.
\<close>

definition registry_ok :: "MCPManager \<Rightarrow> bool" where
  "registry_ok m = (set (map fst (connections m)) \<subseteq> set (map fst (endpoints m)))"

section \<open>Starting and stopping the orchestrator\<close>

text \<open>
  The lifecycle methods of the agent classes. \<open>RequirementsAgent.initialize\<close>
  (requirements\_agent.py, lines 31 to 47) configures the generative model when an API
  key is set, which may raise; the four other classes only set the flag. Only
  \<open>RequirementsAgent.cleanup\<close> resets it.
\<close>

fun agent_initialize :: "world \<Rightarrow> agent \<Rightarrow> exn + agent" where
  "agent_initialize w (RequirementsAgent i g) =
     (if i then Inr (RequirementsAgent i g)
      else if gemini_api_key w
           then (case genai_configure w of
                   Some e \<Rightarrow> Inl e
                 | None \<Rightarrow> Inr (RequirementsAgent True True))
           else Inr (RequirementsAgent True g))"
| "agent_initialize w (PlanningAgent i) = Inr (PlanningAgent True)"
| "agent_initialize w (DevelopmentAgent i) = Inr (DevelopmentAgent True)"
| "agent_initialize w (TestingAgent i) = Inr (TestingAgent True)"
| "agent_initialize w (CommunicationAgent i) = Inr (CommunicationAgent True)"

fun agent_cleanup :: "agent \<Rightarrow> agent" where
  "agent_cleanup (RequirementsAgent i g) = RequirementsAgent False g"
| "agent_cleanup a = a"

text \<open>
  The constructor calls of \<open>AgentManager.initialize\<close> (lines 58 to 62), each with the
  service registry as its one argument. \<open>PlanningAgent.__init__\<close> (planning\_agent.py,
  line 12) takes no argument besides \<open>self\<close>, so that call raises \<open>TypeError\<close>.
\<close>

fun construct_agent :: "AgentType \<Rightarrow> exn + agent" where
  "construct_agent REQUIREMENTS = Inr (RequirementsAgent False False)"
| "construct_agent PLANNING =
     Inl (Exn TypeError ''PlanningAgent.__init__() takes 1 positional argument but 2 were given'')"
| "construct_agent DEVELOPMENT = Inr (DevelopmentAgent False)"
| "construct_agent TESTING = Inr (TestingAgent False)"
| "construct_agent COMMUNICATION = Inr (CommunicationAgent False)"

definition agent_order :: "AgentType list" where
  "agent_order = [REQUIREMENTS, PLANNING, DEVELOPMENT, TESTING, COMMUNICATION]"

text \<open>
  The five assignments \<open>self.agents[T] = C(self.mcp_manager)\<close> in order, stopping at the
  first constructor that raises. The class names are module globals looked up at the
  call, so the constructors are a parameter; \<open>construct_agent\<close> is what the repository
  binds them to.
\<close>

fun construct_agents ::
  "(AgentType \<Rightarrow> exn + agent) \<Rightarrow> AgentType list \<Rightarrow> AgentManager \<Rightarrow> (exn + unit) \<times> AgentManager" where
  "construct_agents ctor [] s = (Inr (), s)"
| "construct_agents ctor (t # ts) s =
     (case ctor t of
        Inl e \<Rightarrow> (Inl e, s)
      | Inr a \<Rightarrow> construct_agents ctor ts (s\<lparr>agents := AList.update t a (agents s)\<rparr>))"

text \<open>
  The loop \<open>for agent_type, agent in self.agents.items(): await agent.initialize()\<close>
  (lines 65 to 67) over the keys still to visit.
\<close>

fun initialize_agents :: "world \<Rightarrow> AgentType list \<Rightarrow> AgentManager \<Rightarrow> (exn + unit) \<times> AgentManager" where
  "initialize_agents w [] s = (Inr (), s)"
| "initialize_agents w (t # ts) s =
     (case map_of (agents s) t of
        None \<Rightarrow> initialize_agents w ts s
      | Some a \<Rightarrow>
          (case agent_initialize w a of
             Inl e \<Rightarrow> (Inl e, s)
           | Inr a' \<Rightarrow>
               initialize_agents w ts
                 (s\<lparr>agents := AList.update t a' (agents s),
                    log := log s @ [LogAgentInitialized t]\<rparr>)))"

text \<open>\<open>AgentManager.initialize\<close> (lines 46 to 70).\<close>

definition initialize_with ::
  "(AgentType \<Rightarrow> exn + agent) \<Rightarrow> world \<Rightarrow> AgentManager \<Rightarrow> (exn + unit) \<times> AgentManager" where
  "initialize_with ctor w s =
     (if is_initialized s then (Inr (), s)
      else case MCPManager_initialize w (MCPManager_new w) (ticks s) of
        (m, n) \<Rightarrow>
          (case construct_agents ctor agent_order
                  (s\<lparr>log := log s @ [LogInitializing], mcp_manager := Some m, ticks := n\<rparr>) of
             (Inl e, s1) \<Rightarrow> (Inl e, s1)
           | (Inr u, s1) \<Rightarrow>
               (case initialize_agents w (map fst (agents s1)) s1 of
                  (Inl e, s2) \<Rightarrow> (Inl e, s2)
                | (Inr u', s2) \<Rightarrow>
                    (Inr (), s2\<lparr>is_initialized := True, log := log s2 @ [LogInitialized]\<rparr>))))"

definition initialize :: "world \<Rightarrow> AgentManager \<Rightarrow> (exn + unit) \<times> AgentManager" where
  "initialize w s = initialize_with construct_agent w s"

text \<open>\<open>AgentManager.cleanup\<close> (lines 72 to 84).\<close>

fun cleanup_agents :: "AgentType list \<Rightarrow> AgentManager \<Rightarrow> AgentManager" where
  "cleanup_agents [] s = s"
| "cleanup_agents (t # ts) s =
     (case map_of (agents s) t of
        None \<Rightarrow> cleanup_agents ts s
      | Some a \<Rightarrow>
          cleanup_agents ts
            (s\<lparr>agents := AList.update t (agent_cleanup a) (agents s),
               log := log s @ [LogAgentCleanedUp t]\<rparr>))"

definition cleanup :: "AgentManager \<Rightarrow> AgentManager" where
  "cleanup s =
     (let s1 = cleanup_agents (map fst (agents s)) (s\<lparr>log := log s @ [LogCleaningUp]\<rparr>);
          s2 = s1\<lparr>mcp_manager := map_option MCPManager_cleanup (mcp_manager s1)\<rparr>
      in s2\<lparr>is_initialized := False, log := log s2 @ [LogCleanupCompleted]\<rparr>)"

section \<open>Observing a run\<close>

text \<open>
  What a call did is read off the log: the capabilities of the tasks created and of the
  tasks handed to an agent, in order, among the events a call appended.
\<close>

fun created_types :: "log_event list \<Rightarrow> AgentType list" where
  "created_types [] = []"
| "created_types (LogCreated tid t # evs) = t # created_types evs"
| "created_types (ev # evs) = created_types evs"

fun executed_types :: "log_event list \<Rightarrow> AgentType list" where
  "executed_types [] = []"
| "executed_types (LogExecuting tid t # evs) = t # executed_types evs"
| "executed_types (ev # evs) = executed_types evs"

definition new_events :: "AgentManager \<Rightarrow> AgentManager \<Rightarrow> log_event list" where
  "new_events s s' = drop (length (log s)) (log s')"

definition present_stages :: "(string \<times> json) list \<Rightarrow> (string \<times> AgentType) list" where
  "present_stages workflow_data =
     filter (\<lambda>(key, atype). map_of workflow_data key \<noteq> None) workflow_stages"

section \<open>Concrete inputs\<close>

text \<open>
  A world for evaluating the definitions: the clock advances by one microsecond at each
  reading, renderings are decimal, extraction returns an empty report, validation fails,
  and every service but \<open>notion\<close> is unreachable.
\<close>

definition demo_report :: json where
  "demo_report = JDict [(''requirements'', JList []), (''summary'', JStr ''none'')]"

definition demo_str :: "json \<Rightarrow> string" where
  "demo_str v = (case v of JStr s \<Rightarrow> s | JInt i \<Rightarrow> str_int i | _ \<Rightarrow> ''?'')"

definition demo_world :: world where
  "demo_world =
     \<lparr>now = (\<lambda>n. n), timestamp_str = str_nat, isoformat = str_nat, py_str = demo_str,
      extract_requirements = (\<lambda>d. Inr demo_report),
      validate_requirements = (\<lambda>d. Inl (Exn Exception ''validation failed'')),
      prioritize_requirements = (\<lambda>d. Inr d),
      gemini_api_key = False, genai_configure = None,
      mcp_endpoint = (\<lambda>n. ''http://'' @ n),
      http_get_health = (\<lambda>e. if e = ''http://notion'' then Inr 200 else Inr 503),
      http_post_send = (\<lambda>e d. Inr (200, ''{}'')),
      response_json = (\<lambda>b. Inr (JDict []))\<rparr>"

text \<open>The same world with a clock that stands still: every reading is the same tick.\<close>

definition frozen_world :: world where
  "frozen_world = demo_world\<lparr>now := (\<lambda>n. 7)\<rparr>"

text \<open>An orchestrator whose only registered agent is an initialized requirements agent.\<close>

definition demo_manager :: AgentManager where
  "demo_manager = AgentManager_new\<lparr>agents := [(REQUIREMENTS, RequirementsAgent True False)]\<rparr>"

text \<open>
  A task is created and executed, the orchestrator is cleaned up (which resets the
  requirements agent), and the same task is executed again.
\<close>

definition demo_created :: "string \<times> AgentManager" where
  "demo_created =
     create_task demo_world demo_manager REQUIREMENTS 42 (JDict [(''conversations'', JList [])]) ''medium''"

definition demo_executed :: "(exn + json) \<times> AgentManager" where
  "demo_executed = execute_task demo_world (snd demo_created) (fst demo_created)"

definition demo_rerun :: "(exn + json) \<times> AgentManager" where
  "demo_rerun = execute_task demo_world (cleanup (snd demo_executed)) (fst demo_created)"

definition demo_task :: AgentTask where
  "demo_task =
     \<lparr>task_id = ''requirements_42_0'', agent_type = REQUIREMENTS, project_id = 42,
      task_data = JDict [(''conversations'', JList [])], priority = ''medium'',
      status = ''pending'', created_at = Some 1, completed_at = None, result = JNull,
      error = None\<rparr>"

text \<open>
  An orchestrator with an initialized object of each class under its capability, and
  three workflow specifications.
\<close>

definition full_manager :: AgentManager where
  "full_manager =
     AgentManager_new\<lparr>agents :=
       [(REQUIREMENTS, RequirementsAgent True False), (PLANNING, PlanningAgent True),
        (DEVELOPMENT, DevelopmentAgent True), (TESTING, TestingAgent True),
        (COMMUNICATION, CommunicationAgent True)]\<rparr>"


definition bogus_spec :: "(string \<times> json) list" where
  "bogus_spec =
     [(''requirements'', JDict [(''analysis_type'', JStr ''bogus'')]), (''testing'', JDict [])]"

definition small_spec :: "(string \<times> json) list" where
  "small_spec = [(''notes'', JStr ''x''), (''requirements'', JDict [(''conversations'', JList [])])]"




text \<open>The registry after probing in the demo world: only \<open>notion\<close> answers 200.\<close>

definition demo_registry :: MCPManager where
  "demo_registry = fst (MCPManager_initialize demo_world (MCPManager_new demo_world) 0)"

text \<open>
  Constructors that all accept the registry argument, the objects they build and the
  same objects once initialized, and a world in which configuring the generative model
  raises.
\<close>

fun fresh_agent :: "AgentType \<Rightarrow> agent" where
  "fresh_agent REQUIREMENTS = RequirementsAgent False False"
| "fresh_agent PLANNING = PlanningAgent False"
| "fresh_agent DEVELOPMENT = DevelopmentAgent False"
| "fresh_agent TESTING = TestingAgent False"
| "fresh_agent COMMUNICATION = CommunicationAgent False"

fun ready_agent :: "AgentType \<Rightarrow> agent" where
  "ready_agent REQUIREMENTS = RequirementsAgent True False"
| "ready_agent PLANNING = PlanningAgent True"
| "ready_agent DEVELOPMENT = DevelopmentAgent True"
| "ready_agent TESTING = TestingAgent True"
| "ready_agent COMMUNICATION = CommunicationAgent True"

definition accepting_construct_agent :: "AgentType \<Rightarrow> exn + agent" where
  "accepting_construct_agent t = Inr (fresh_agent t)"

definition failing_genai_world :: world where
  "failing_genai_world =
     demo_world\<lparr>gemini_api_key := True, genai_configure := Some (Exn Exception ''invalid API key'')\<rparr>"

section \<open>Unknown task ids\<close>

text \<open>
  C8. For every task id that is not a key of the task store, \<open>execute_task\<close> raises
  \<open>ValueError("Task <id> not found")\<close> (the spec's TaskNotFound) and returns the
  orchestrator's state exactly as it was: the task store, the agents, the clock and the
  log are all unchanged.
\<close>

theorem execute_task_unknown_id:
  "map_of (tasks s) tid = None \<Longrightarrow>
     execute_task w s tid = (Inl (Exn ValueError (''Task '' @ tid @ '' not found'')), s)"
  by (simp add: execute_task_def)

theorem execute_task_unknown_id_witness:
  "map_of (tasks (snd demo_created)) ''requirements_42_9'' = None \<and>
   map fst (tasks (snd demo_created)) = [''requirements_42_0''] \<and>
   execute_task demo_world (snd demo_created) ''requirements_42_9'' =
     (Inl (Exn ValueError ''Task requirements_42_9 not found''), snd demo_created)"
proof -
  have k: "map fst (tasks (snd demo_created)) = [''requirements_42_0'']"
    by (simp add: demo_created_def create_task_def demo_manager_def AgentManager_new_def
          demo_world_def str_int_def str_nat.simps digit_char_def Let_def)
  have "''requirements_42_9'' \<notin> set (map fst (tasks (snd demo_created)))"
    unfolding k by simp
  then have h: "map_of (tasks (snd demo_created)) ''requirements_42_9'' = None"
    by (simp add: map_of_eq_None_iff)
  show ?thesis
    using h k execute_task_unknown_id [OF h, of demo_world] by simp
qed

section \<open>Dispatch inside the agents\<close>

text \<open>
  C10. On an initialized requirements agent, a payload dict without the key
  \<open>analysis_type\<close> is handled as \<open>requirements_extraction\<close>: the call is the extraction
  handler's call, whatever that returns. A discriminator that is present is routed to
  its handler when it is one of the three known names and is rejected with
  \<open>ValueError("Unknown task type: ...")\<close> otherwise.
\<close>

theorem requirements_default_discriminator:
  "(map_of kvs ''analysis_type'' = None \<longrightarrow>
      agent_execute_task w (RequirementsAgent True g) (JDict kvs) =
        extract_requirements w (JDict kvs)) \<and>
   (map_of kvs ''analysis_type'' = Some v \<longrightarrow>
      v \<notin> {JStr ''requirements_extraction'', JStr ''requirements_validation'',
           JStr ''requirements_prioritization''} \<longrightarrow>
      agent_execute_task w (RequirementsAgent True g) (JDict kvs) =
        Inl (Exn ValueError (''Unknown task type: '' @ py_str w v))) \<and>
   (map_of kvs ''analysis_type'' = Some (JStr ''requirements_extraction'') \<longrightarrow>
      agent_execute_task w (RequirementsAgent True g) (JDict kvs) =
        extract_requirements w (JDict kvs)) \<and>
   (map_of kvs ''analysis_type'' = Some (JStr ''requirements_validation'') \<longrightarrow>
      agent_execute_task w (RequirementsAgent True g) (JDict kvs) =
        validate_requirements w (JDict kvs)) \<and>
   (map_of kvs ''analysis_type'' = Some (JStr ''requirements_prioritization'') \<longrightarrow>
      agent_execute_task w (RequirementsAgent True g) (JDict kvs) =
        prioritize_requirements w (JDict kvs))"
  by (simp add: RequirementsAgent_execute_task_def)

theorem requirements_default_discriminator_witness:
  "map_of [(''conversations'', JList [])] ''analysis_type'' = None \<and>
   agent_execute_task demo_world (RequirementsAgent True False)
     (JDict [(''conversations'', JList [])]) = Inr demo_report \<and>
   map_of [(''analysis_type'', JStr ''bogus'')] ''analysis_type'' = Some (JStr ''bogus'') \<and>
   agent_execute_task demo_world (RequirementsAgent True False)
     (JDict [(''analysis_type'', JStr ''bogus'')]) =
       Inl (Exn ValueError ''Unknown task type: bogus'') \<and>
   agent_execute_task demo_world (RequirementsAgent True False)
     (JDict [(''analysis_type'', JStr ''requirements_validation'')]) =
       Inl (Exn Exception ''validation failed'')"
  using requirements_default_discriminator
          [of "[(''conversations'', JList [])]" demo_world False "JStr ''bogus''"]
        requirements_default_discriminator
          [of "[(''analysis_type'', JStr ''bogus'')]" demo_world False "JStr ''bogus''"]
        requirements_default_discriminator
          [of "[(''analysis_type'', JStr ''requirements_validation'')]" demo_world False JNull]
  by (simp add: demo_world_def demo_str_def)

text \<open>
  C1. The planning, development, testing and communication agents have no
  \<open>execute_task\<close> at all: whatever the payload and its discriminator, the call raises
  \<open>AttributeError\<close>. No sub-type is dispatched and no \<open>ValueError\<close> for an unknown
  variant is raised; this holds in particular for the payload with
  \<open>planning_type = epic_story_generation\<close> that the orchestrator itself builds.
\<close>

theorem execute_task_missing_on_four_agents:
  "agent_execute_task w (PlanningAgent i) payload =
     Inl (Exn AttributeError
       ([CHR 0x27] @ ''PlanningAgent'' @ [CHR 0x27] @ '' object has no attribute '' @
        [CHR 0x27] @ ''execute_task'' @ [CHR 0x27])) \<and>
   agent_execute_task w (DevelopmentAgent i) payload =
     Inl (Exn AttributeError
       ([CHR 0x27] @ ''DevelopmentAgent'' @ [CHR 0x27] @ '' object has no attribute '' @
        [CHR 0x27] @ ''execute_task'' @ [CHR 0x27])) \<and>
   agent_execute_task w (TestingAgent i) payload =
     Inl (Exn AttributeError
       ([CHR 0x27] @ ''TestingAgent'' @ [CHR 0x27] @ '' object has no attribute '' @
        [CHR 0x27] @ ''execute_task'' @ [CHR 0x27])) \<and>
   agent_execute_task w (CommunicationAgent i) payload =
     Inl (Exn AttributeError
       ([CHR 0x27] @ ''CommunicationAgent'' @ [CHR 0x27] @ '' object has no attribute '' @
        [CHR 0x27] @ ''execute_task'' @ [CHR 0x27]))"
  by (simp add: no_execute_task_def)

section \<open>Task ids\<close>

text \<open>
  C3. Two \<open>create_task\<close> calls that read the same clock tick, for the same capability
  and project, return the same id, and the second task replaces the first in the store:
  after both calls the store holds one task, with the second call's payload.
\<close>

theorem create_task_same_tick_collides:
  "fst (create_task frozen_world AgentManager_new REQUIREMENTS 1 (JDict []) ''medium'') =
   fst (create_task frozen_world
          (snd (create_task frozen_world AgentManager_new REQUIREMENTS 1 (JDict []) ''medium''))
          REQUIREMENTS 1 (JDict [(''conversations'', JList [])]) ''high'') \<and>
   map (\<lambda>(k, t). (k, task_data t, priority t))
     (tasks (snd (create_task frozen_world
          (snd (create_task frozen_world AgentManager_new REQUIREMENTS 1 (JDict []) ''medium''))
          REQUIREMENTS 1 (JDict [(''conversations'', JList [])]) ''high''))) =
     [(''requirements_1_7'', JDict [(''conversations'', JList [])], ''high'')]"
  by (simp add: create_task_def frozen_world_def demo_world_def AgentManager_new_def
                str_int_def str_nat.simps digit_char_def Let_def)

section \<open>Outcome of a task execution\<close>

lemma demo_created_eq:
  "demo_created = (''requirements_42_0'',
     demo_manager\<lparr>tasks := [(''requirements_42_0'', demo_task)], ticks := 2,
        log := [LogCreated ''requirements_42_0'' REQUIREMENTS]\<rparr>)"
  by (simp add: demo_created_def create_task_def demo_manager_def AgentManager_new_def
        demo_world_def str_int_def str_nat.simps digit_char_def Let_def demo_task_def)

lemma demo_executed_eq:
  "demo_executed = (Inr demo_report,
     demo_manager\<lparr>tasks := [(''requirements_42_0'',
          demo_task\<lparr>status := ''completed'', completed_at := Some 2, result := demo_report\<rparr>)],
        ticks := 3,
        log := [LogCreated ''requirements_42_0'' REQUIREMENTS,
                LogExecuting ''requirements_42_0'' REQUIREMENTS,
                LogCompleted ''requirements_42_0'']\<rparr>)"
  by (simp add: demo_executed_def demo_created_eq execute_task_def demo_manager_def
        AgentManager_new_def demo_task_def RequirementsAgent_execute_task_def demo_world_def)

lemma demo_cleanup_eq:
  "cleanup (snd demo_executed) =
     AgentManager_new\<lparr>agents := [(REQUIREMENTS, RequirementsAgent False False)],
        tasks := [(''requirements_42_0'',
          demo_task\<lparr>status := ''completed'', completed_at := Some 2, result := demo_report\<rparr>)],
        ticks := 3,
        log := [LogCreated ''requirements_42_0'' REQUIREMENTS,
                LogExecuting ''requirements_42_0'' REQUIREMENTS,
                LogCompleted ''requirements_42_0'', LogCleaningUp,
                LogAgentCleanedUp REQUIREMENTS, LogCleanupCompleted]\<rparr>"
  by (simp add: demo_executed_eq cleanup_def demo_manager_def AgentManager_new_def Let_def)

lemma demo_rerun_eq:
  "demo_rerun = (Inl (Exn RuntimeError ''Requirements Agent not initialized''),
     AgentManager_new\<lparr>agents := [(REQUIREMENTS, RequirementsAgent False False)],
        tasks := [(''requirements_42_0'',
          demo_task\<lparr>status := ''failed'', completed_at := Some 2, result := demo_report,
                     error := Some ''Requirements Agent not initialized''\<rparr>)],
        ticks := 3,
        log := [LogCreated ''requirements_42_0'' REQUIREMENTS,
                LogExecuting ''requirements_42_0'' REQUIREMENTS,
                LogCompleted ''requirements_42_0'', LogCleaningUp,
                LogAgentCleanedUp REQUIREMENTS, LogCleanupCompleted,
                LogExecuting ''requirements_42_0'' REQUIREMENTS,
                LogFailed ''requirements_42_0'' ''Requirements Agent not initialized'']\<rparr>)"
  by (simp add: demo_rerun_def demo_cleanup_eq demo_created_eq execute_task_def
        AgentManager_new_def demo_task_def RequirementsAgent_execute_task_def)

text \<open>
  C6, as the code has it. For a task in the store whose capability has a registered
  agent: if the agent returns \<open>R\<close>, \<open>execute_task\<close> returns \<open>R\<close> and the status
  report then shows \<open>completed\<close>, a completion time and the result \<open>R\<close>; if the agent
  raises \<open>E\<close>, \<open>execute_task\<close> raises \<open>E\<close> and the report shows \<open>failed\<close>, the
  message of \<open>E\<close>, and the result the task had before the call (none for a task that
  never completed).
\<close>

theorem execute_task_outcome_recorded:
  assumes "map_of (tasks s) tid = Some task"
      and "map_of (agents s) (agent_type task) = Some a"
  shows "(agent_execute_task w a (task_data task) = Inr R \<longrightarrow>
            fst (execute_task w s tid) = Inr R \<and>
            (\<exists>st. get_task_status w (snd (execute_task w s tid)) tid = Some st \<and>
                  st_status st = ''completed'' \<and> st_completed_at st \<noteq> None \<and>
                  st_result st = R)) \<and>
         (agent_execute_task w a (task_data task) = Inl E \<longrightarrow>
            fst (execute_task w s tid) = Inl E \<and>
            (\<exists>st. get_task_status w (snd (execute_task w s tid)) tid = Some st \<and>
                  st_status st = ''failed'' \<and> st_error st = Some (str_exn E) \<and>
                  st_result st = result task))"
  using assms
  by (simp add: execute_task_def get_task_status_def Let_def update_conv')

theorem execute_task_outcome_recorded_witness:
  "map_of (tasks (snd demo_created)) ''requirements_42_0'' = Some demo_task \<and>
   map_of (agents (snd demo_created)) (agent_type demo_task) = Some (RequirementsAgent True False) \<and>
   agent_execute_task demo_world (RequirementsAgent True False) (task_data demo_task) = Inr demo_report \<and>
   fst (execute_task demo_world (snd demo_created) ''requirements_42_0'') = Inr demo_report \<and>
   (\<exists>st. get_task_status demo_world (snd (execute_task demo_world (snd demo_created) ''requirements_42_0''))
            ''requirements_42_0'' = Some st \<and>
         st_status st = ''completed'' \<and> st_completed_at st \<noteq> None \<and> st_result st = demo_report) \<and>
   map_of (tasks (snd demo_created)) ''r'' = None"
proof -
  have h1: "map_of (tasks (snd demo_created)) ''requirements_42_0'' = Some demo_task"
    by (simp add: demo_created_eq)
  have h2: "map_of (agents (snd demo_created)) (agent_type demo_task) =
              Some (RequirementsAgent True False)"
    by (simp add: demo_created_eq demo_manager_def demo_task_def)
  have h3: "agent_execute_task demo_world (RequirementsAgent True False) (task_data demo_task) =
              Inr demo_report"
    by (simp add: RequirementsAgent_execute_task_def demo_task_def demo_world_def)
  show ?thesis
    using h1 h2 h3 execute_task_outcome_recorded [OF h1 h2, of demo_world demo_report]
    by (simp add: demo_created_eq)
qed

text \<open>
  C6 as stated fails: a task that completed and is executed again after the agents were
  cleaned up is reported \<open>failed\<close> with its earlier result still in place.
\<close>

theorem failed_rerun_keeps_result:
  "fst demo_executed = Inr demo_report \<and>
   fst demo_rerun = Inl (Exn RuntimeError ''Requirements Agent not initialized'') \<and>
   map_option st_status (get_task_status demo_world (snd demo_rerun) (fst demo_created)) =
     Some ''failed'' \<and>
   map_option st_result (get_task_status demo_world (snd demo_rerun) (fst demo_created)) =
     Some demo_report \<and>
   demo_report \<noteq> JNull"
  by (simp add: demo_executed_eq demo_rerun_eq demo_created_eq get_task_status_def
        demo_report_def)

lemma execute_task_never_sets_pending:
  "map_of (tasks (snd (execute_task w s tid))) tid' = Some t' \<Longrightarrow> status t' = ''pending'' \<Longrightarrow>
     map_of (tasks s) tid' = Some t'"
  by (auto simp add: execute_task_def Let_def update_conv' split: option.splits sum.splits if_splits)

text \<open>
  C7, as the code has it. \<open>execute_task\<close> does not look at the status: for a task in
  the store whose capability has a registered agent it runs the agent whatever the status
  was, returns the agent's outcome (there is no error for an illegal transition), and
  leaves the task \<open>completed\<close> or \<open>failed\<close> accordingly. No call makes a task
  \<open>pending\<close>: a task that is pending afterwards was that same pending task before.
\<close>

theorem execute_task_overwrites_status:
  assumes "map_of (tasks s) tid = Some task"
      and "map_of (agents s) (agent_type task) = Some a"
  shows "fst (execute_task w s tid) = agent_execute_task w a (task_data task) \<and>
         map_option status (map_of (tasks (snd (execute_task w s tid))) tid) =
           Some (case agent_execute_task w a (task_data task) of
                   Inr res \<Rightarrow> ''completed'' | Inl e \<Rightarrow> ''failed'') \<and>
         (\<forall>tid' t'. map_of (tasks (snd (execute_task w s tid))) tid' = Some t' \<and>
                    status t' = ''pending'' \<longrightarrow> map_of (tasks s) tid' = Some t')"
proof -
  have "fst (execute_task w s tid) = agent_execute_task w a (task_data task) \<and>
         map_option status (map_of (tasks (snd (execute_task w s tid))) tid) =
           Some (case agent_execute_task w a (task_data task) of
                   Inr res \<Rightarrow> ''completed'' | Inl e \<Rightarrow> ''failed'')"
    using assms by (simp add: execute_task_def Let_def update_conv' split: sum.splits)
  then show ?thesis using execute_task_never_sets_pending by blast
qed

theorem execute_task_overwrites_status_witness:
  "map_of (tasks (cleanup (snd demo_executed))) ''requirements_42_0'' =
     Some (demo_task\<lparr>status := ''completed'', completed_at := Some 2, result := demo_report\<rparr>) \<and>
   map_of (agents (cleanup (snd demo_executed))) REQUIREMENTS = Some (RequirementsAgent False False) \<and>
   map_option status
     (map_of (tasks (snd (execute_task demo_world (cleanup (snd demo_executed)) ''requirements_42_0'')))
        ''requirements_42_0'') = Some ''failed''"
proof -
  let ?t = "demo_task\<lparr>status := ''completed'', completed_at := Some 2, result := demo_report\<rparr>"
  have h1: "map_of (tasks (cleanup (snd demo_executed))) ''requirements_42_0'' = Some ?t"
    by (simp add: demo_cleanup_eq AgentManager_new_def)
  have h2: "map_of (agents (cleanup (snd demo_executed))) (agent_type ?t) =
              Some (RequirementsAgent False False)"
    by (simp add: demo_cleanup_eq AgentManager_new_def demo_task_def)
  show ?thesis
    using h1 h2 execute_task_overwrites_status [OF h1 h2, of demo_world]
    by (simp add: RequirementsAgent_execute_task_def demo_task_def)
qed

text \<open>
  C7 as stated fails: a completed task that is executed again after the agents were
  cleaned up becomes \<open>failed\<close>, and the error raised is the agent's.
\<close>

theorem completed_task_becomes_failed:
  "map_option status (map_of (tasks (cleanup (snd demo_executed))) (fst demo_created)) =
     Some ''completed'' \<and>
   fst (execute_task demo_world (cleanup (snd demo_executed)) (fst demo_created)) =
     Inl (Exn RuntimeError ''Requirements Agent not initialized'') \<and>
   map_option status
     (map_of (tasks (snd (execute_task demo_world (cleanup (snd demo_executed)) (fst demo_created))))
        (fst demo_created)) = Some ''failed''"
  using demo_rerun_eq unfolding demo_rerun_def
  by (simp add: demo_cleanup_eq demo_created_eq)

section \<open>Workflow runs\<close>

lemma created_types_append: "created_types (xs @ ys) = created_types xs @ created_types ys"
  by (induction xs rule: created_types.induct) auto

lemma executed_types_append: "executed_types (xs @ ys) = executed_types xs @ executed_types ys"
  by (induction xs rule: executed_types.induct) auto

lemma stage_success:
  assumes "create_task w s atype pid sub prio = (tid, s1)"
      and "execute_task w s1 tid = (Inr res, s2)"
  shows "log s2 = log s @ [LogCreated tid atype, LogExecuting tid atype, LogCompleted tid]"
  using assms
  by (auto simp add: create_task_def execute_task_def Let_def update_conv'
           split: option.splits sum.splits)


lemma run_stages_success:
  assumes "run_stages w pid wd stages results s = (Inr r, s')"
      and "distinct (map fst stages)"
      and "set (map fst stages) \<inter> set (map fst results) = {}"
  shows "\<exists>evs. log s' = log s @ evs \<and>
           created_types evs = map snd (filter (\<lambda>(key, atype). map_of wd key \<noteq> None) stages) \<and>
           executed_types evs = map snd (filter (\<lambda>(key, atype). map_of wd key \<noteq> None) stages) \<and>
           map fst r = map fst results @
             map fst (filter (\<lambda>(key, atype). map_of wd key \<noteq> None) stages)"
  using assms
proof (induction stages arbitrary: results s)
  case Nil
  then show ?case by simp
next
  case (Cons st stages)
  obtain key atype where st: "st = (key, atype)" by (cases st)
  show ?case
  proof (cases "map_of wd key")
    case None
    with Cons.prems st have "run_stages w pid wd stages results s = (Inr r, s')" by simp
    moreover from Cons.prems have "distinct (map fst stages)"
      "set (map fst stages) \<inter> set (map fst results) = {}" by auto
    ultimately show ?thesis using Cons.IH None st by simp
  next
    case (Some sub)
    obtain tid s1 where c: "create_task w s atype pid sub ''medium'' = (tid, s1)"
      by (cases "create_task w s atype pid sub ''medium''")
    obtain x s2 where e: "execute_task w s1 tid = (x, s2)"
      by (cases "execute_task w s1 tid")
    from Cons.prems(1) st Some c e obtain res where x: "x = Inr res"
      and rest: "run_stages w pid wd stages (AList.update key res results) s2 = (Inr r, s')"
      by (cases x) auto
    from Cons.prems st have knew: "key \<notin> set (map fst results)" by auto
    have keys: "map fst (AList.update key res results) = map fst results @ [key]"
      using knew by (simp add: update_keys)
    from Cons.prems st have d: "distinct (map fst stages)" and
      dj: "set (map fst stages) \<inter> set (map fst (AList.update key res results)) = {}"
      by (auto simp add: keys)
    from Cons.IH [OF rest d dj] obtain evs where
      evs: "log s' = log s2 @ evs"
        "created_types evs = map snd (filter (\<lambda>(key, atype). map_of wd key \<noteq> None) stages)"
        "executed_types evs = map snd (filter (\<lambda>(key, atype). map_of wd key \<noteq> None) stages)"
        "map fst r = map fst (AList.update key res results) @
             map fst (filter (\<lambda>(key, atype). map_of wd key \<noteq> None) stages)"
      by blast
    have l2: "log s2 = log s @ [LogCreated tid atype, LogExecuting tid atype, LogCompleted tid]"
      using stage_success c e x by blast
    show ?thesis
      apply (rule exI [of _ "[LogCreated tid atype, LogExecuting tid atype, LogCompleted tid] @ evs"])
      using evs l2 st Some keys
      by (simp add: created_types_append executed_types_append)
  qed
qed

lemmas demo_eval = create_task_def execute_task_def Let_def demo_world_def demo_manager_def
  full_manager_def AgentManager_new_def str_int_def str_nat.simps digit_char_def
  RequirementsAgent_execute_task_def no_execute_task_def
  execute_workflow_def workflow_stages_def

text \<open>
  C4, as the code has it. Whenever \<open>execute_workflow\<close> returns a map, the keys of the
  map are the stage keys present in the specification, in the fixed order, and the call
  created exactly one task and executed exactly one task for each of them, in that order,
  and none for an absent stage. For the empty specification it returns the empty map and
  changes nothing but the log.
\<close>

theorem execute_workflow_success:
  "(execute_workflow w s pid workflow_data = (Inr workflow_results, s') \<longrightarrow>
      map fst workflow_results = map fst (present_stages workflow_data) \<and>
      created_types (new_events s s') = map snd (present_stages workflow_data) \<and>
      executed_types (new_events s s') = map snd (present_stages workflow_data)) \<and>
   execute_workflow w s pid [] =
     (Inr [], s\<lparr>log := log s @ [LogWorkflowStarting pid, LogWorkflowCompleted pid]\<rparr>)"
proof (intro conjI impI)
  assume a: "execute_workflow w s pid workflow_data = (Inr workflow_results, s')"
  let ?s0 = "s\<lparr>log := log s @ [LogWorkflowStarting pid]\<rparr>"
  obtain x s1 where r: "run_stages w pid workflow_data workflow_stages [] ?s0 = (x, s1)"
    by (cases "run_stages w pid workflow_data workflow_stages [] ?s0")
  from a r have x: "x = Inr workflow_results"
    and s': "s' = s1\<lparr>log := log s1 @ [LogWorkflowCompleted pid]\<rparr>"
    by (cases x; simp add: execute_workflow_def)+
  have "distinct (map fst workflow_stages)" by (simp add: workflow_stages_def)
  with run_stages_success [of w pid workflow_data workflow_stages "[]" ?s0 workflow_results s1] r x
  obtain evs where evs: "log s1 = log ?s0 @ evs"
    "created_types evs = map snd (present_stages workflow_data)"
    "executed_types evs = map snd (present_stages workflow_data)"
    "map fst workflow_results = map fst (present_stages workflow_data)"
    by (auto simp add: present_stages_def)
  show "map fst workflow_results = map fst (present_stages workflow_data)" by (rule evs)
  have n: "new_events s s' = LogWorkflowStarting pid # evs @ [LogWorkflowCompleted pid]"
    using evs(1) s' by (simp add: new_events_def)
  show "created_types (new_events s s') = map snd (present_stages workflow_data)"
    using evs(2) by (simp add: n created_types_append)
  show "executed_types (new_events s s') = map snd (present_stages workflow_data)"
    using evs(3) by (simp add: n executed_types_append)
next
  show "execute_workflow w s pid [] =
     (Inr [], s\<lparr>log := log s @ [LogWorkflowStarting pid, LogWorkflowCompleted pid]\<rparr>)"
    by (simp add: execute_workflow_def workflow_stages_def)
qed

theorem execute_workflow_success_witness:
  "execute_workflow demo_world demo_manager 42 small_spec =
     (Inr [(''requirements'', demo_report)],
      snd (execute_workflow demo_world demo_manager 42 small_spec)) \<and>
   map fst (present_stages small_spec) = [''requirements''] \<and>
   created_types (new_events demo_manager
      (snd (execute_workflow demo_world demo_manager 42 small_spec))) = [REQUIREMENTS] \<and>
   executed_types (new_events demo_manager
      (snd (execute_workflow demo_world demo_manager 42 small_spec))) = [REQUIREMENTS]"
proof -
  have f: "fst (execute_workflow demo_world demo_manager 42 small_spec) =
             Inr [(''requirements'', demo_report)]"
    by (simp add: demo_eval small_spec_def)
  have h: "execute_workflow demo_world demo_manager 42 small_spec =
             (Inr [(''requirements'', demo_report)],
              snd (execute_workflow demo_world demo_manager 42 small_spec))"
    using f by (simp add: prod_eq_iff)
  have p: "present_stages small_spec = [(''requirements'', REQUIREMENTS)]"
    by (simp add: present_stages_def small_spec_def workflow_stages_def)
  show ?thesis
    using h p execute_workflow_success [of demo_world demo_manager 42 small_spec
        "[(''requirements'', demo_report)]"
        "snd (execute_workflow demo_world demo_manager 42 small_spec)"]
    by simp
qed

text \<open>
  C4 as stated fails: not every specification yields a map. With a requirements payload
  whose discriminator is unknown, the first stage raises, so the call raises; one task
  was created for two present stages.
\<close>

theorem failed_stage_returns_no_map:
  "map fst (present_stages bogus_spec) = [''requirements'', ''testing''] \<and>
   fst (execute_workflow demo_world demo_manager 42 bogus_spec) =
     Inl (Exn ValueError ''Unknown task type: bogus'') \<and>
   created_types (new_events demo_manager
      (snd (execute_workflow demo_world demo_manager 42 bogus_spec))) = [REQUIREMENTS]"
  by (simp add: demo_eval bogus_spec_def present_stages_def new_events_def demo_str_def)








section \<open>Sending through the service registry\<close>

lemma probe_all_keys:
  "fst ` set (fst (probe_all w eps conns n)) = fst ` set conns \<union> fst ` set eps"
  by (induction w eps conns n rule: probe_all.induct) (auto simp add: dom_update)

lemma registry_ok_new: "registry_ok (MCPManager_new w)"
  by (simp add: registry_ok_def MCPManager_new_def)

lemma registry_ok_initialize:
  assumes ok: "registry_ok m"
  shows "registry_ok (fst (MCPManager_initialize w m n))"
proof (cases "mcp_is_initialized m")
  case True
  then show ?thesis using ok by (simp add: MCPManager_initialize_def)
next
  case False
  obtain conns n' where p: "probe_all w (endpoints m) (connections m) n = (conns, n')"
    by (cases "probe_all w (endpoints m) (connections m) n")
  have "fst ` set conns = fst ` set (connections m) \<union> fst ` set (endpoints m)"
    using probe_all_keys [of w "endpoints m" "connections m" n] p by simp
  then have "fst ` set conns \<subseteq> fst ` set (endpoints m)"
    using ok by (auto simp add: registry_ok_def)
  then show ?thesis
    using False p by (simp add: registry_ok_def MCPManager_initialize_def)
qed

lemma registry_ok_cleanup: "registry_ok (MCPManager_cleanup m)"
  by (simp add: registry_ok_def MCPManager_cleanup_def)

text \<open>
  C9. \<open>send_message\<close> to a name that is not among the configured endpoints raises
  \<open>ValueError("Service <name> not available")\<close> (the spec's ServiceUnknown); to a
  service whose recorded status is not \<open>connected\<close> it raises
  \<open>ConnectionError("Service <name> not connected")\<close> (ServiceUnavailable). Both are
  ordinary exceptions of the call, and in both cases the registry is returned exactly as
  it was, so no service's recorded status has changed.
\<close>

theorem send_message_failures:
  assumes "registry_ok m"
  shows "(service \<notin> set (map fst (endpoints m)) \<longrightarrow>
            send_message w m service message_data =
              (Inl (Exn ValueError (''Service '' @ service @ '' not available'')), m)) \<and>
         (map_of (connections m) service = Some conn \<longrightarrow> conn_status conn \<noteq> ''connected'' \<longrightarrow>
            send_message w m service message_data =
              (Inl (Exn ConnectionError (''Service '' @ service @ '' not connected'')), m))"
proof (intro conjI impI)
  assume "service \<notin> set (map fst (endpoints m))"
  with assms have "service \<notin> fst ` set (connections m)"
    by (auto simp add: registry_ok_def)
  then have "map_of (connections m) service = None"
    by (simp add: map_of_eq_None_iff)
  then show "send_message w m service message_data =
              (Inl (Exn ValueError (''Service '' @ service @ '' not available'')), m)"
    by (simp add: send_message_def)
next
  assume "map_of (connections m) service = Some conn" "conn_status conn \<noteq> ''connected''"
  then show "send_message w m service message_data =
              (Inl (Exn ConnectionError (''Service '' @ service @ '' not connected'')), m)"
    by (simp add: send_message_def)
qed

theorem send_message_failures_witness:
  "registry_ok demo_registry \<and>
   ''fax'' \<notin> set (map fst (endpoints demo_registry)) \<and>
   send_message demo_world demo_registry ''fax'' (JDict []) =
     (Inl (Exn ValueError ''Service fax not available''), demo_registry) \<and>
   map_option conn_status (map_of (connections demo_registry) ''slack'') = Some ''error'' \<and>
   send_message demo_world demo_registry ''slack'' (JDict []) =
     (Inl (Exn ConnectionError ''Service slack not connected''), demo_registry)"
proof -
  have ok: "registry_ok demo_registry"
    unfolding demo_registry_def by (rule registry_ok_initialize [OF registry_ok_new])
  have ep: "''fax'' \<notin> set (map fst (endpoints demo_registry))"
    by (simp add: demo_registry_def MCPManager_initialize_def MCPManager_new_def
          service_names_def split: prod.splits)
  obtain c where c: "map_of (connections demo_registry) ''slack'' = Some c"
    and st: "conn_status c = ''error''"
    by (simp add: demo_registry_def MCPManager_initialize_def MCPManager_new_def service_names_def
        probe_def demo_world_def)
  have ne: "conn_status c \<noteq> ''connected''" using st by simp
  show ?thesis
    using ok ep c st ne
      send_message_failures [OF ok, where service = "''fax''" and w = demo_world
        and message_data = "JDict []" and conn = c]
      send_message_failures [OF ok, where service = "''slack''" and w = demo_world
        and message_data = "JDict []" and conn = c]
    by simp
qed

section \<open>Starting the orchestrator\<close>

lemma initialize_with_unfold:
  "\<not> is_initialized s \<Longrightarrow>
   initialize_with ctor w s =
     (case construct_agents ctor agent_order
             (s\<lparr>log := log s @ [LogInitializing],
                mcp_manager := Some (fst (MCPManager_initialize w (MCPManager_new w) (ticks s))),
                ticks := snd (MCPManager_initialize w (MCPManager_new w) (ticks s))\<rparr>) of
        (Inl e, s1) \<Rightarrow> (Inl e, s1)
      | (Inr u, s1) \<Rightarrow>
          (case initialize_agents w (map fst (agents s1)) s1 of
             (Inl e, s2) \<Rightarrow> (Inl e, s2)
           | (Inr u', s2) \<Rightarrow>
               (Inr (), s2\<lparr>is_initialized := True, log := log s2 @ [LogInitialized]\<rparr>)))"
  by (simp add: initialize_with_def split: prod.splits)

lemma construct_agents_keeps: 
  "mcp_manager (snd (construct_agents ctor ts s)) = mcp_manager s \<and>
   is_initialized (snd (construct_agents ctor ts s)) = is_initialized s \<and>
   log (snd (construct_agents ctor ts s)) = log s"
  by (induction ctor ts s rule: construct_agents.induct) (auto split: sum.splits)

lemma initialize_agents_keeps:
  "mcp_manager (snd (initialize_agents w ts s)) = mcp_manager s \<and>
   is_initialized (snd (initialize_agents w ts s)) = is_initialized s"
  by (induction w ts s rule: initialize_agents.induct) (auto split: sum.splits option.splits)

lemma initialize_registry_first:
  assumes "\<not> is_initialized s"
  shows "mcp_manager (snd (initialize_with ctor w s)) =
           Some (fst (MCPManager_initialize w (MCPManager_new w) (ticks s)))"
proof -
  let ?m = "fst (MCPManager_initialize w (MCPManager_new w) (ticks s))"
  let ?s0 = "s\<lparr>log := log s @ [LogInitializing], mcp_manager := Some ?m,
               ticks := snd (MCPManager_initialize w (MCPManager_new w) (ticks s))\<rparr>"
  obtain r1 s1 where c: "construct_agents ctor agent_order ?s0 = (r1, s1)"
    by (cases "construct_agents ctor agent_order ?s0")
  obtain r2 s2 where i: "initialize_agents w (map fst (agents s1)) s1 = (r2, s2)"
    by (cases "initialize_agents w (map fst (agents s1)) s1")
  have m1: "mcp_manager s1 = Some ?m"
    using construct_agents_keeps [of ctor agent_order ?s0] c by simp
  have m2: "mcp_manager s2 = Some ?m"
    using initialize_agents_keeps [of w "map fst (agents s1)" s1] i m1 by simp
  show ?thesis
    using assms c i m1 m2
    by (cases r1; cases r2) (simp_all add: initialize_with_unfold)
qed

lemma construction_failure:
  assumes "\<not> is_initialized s" and "agents s = []"
    and "t \<in> set agent_order" and "ctor t = Inl e"
    and "\<forall>t' \<in> set (takeWhile (\<lambda>x. x \<noteq> t) agent_order). \<exists>a. ctor t' = Inr a"
  shows "fst (initialize_with ctor w s) = Inl e \<and>
         \<not> is_initialized (snd (initialize_with ctor w s)) \<and>
         map fst (agents (snd (initialize_with ctor w s))) = takeWhile (\<lambda>x. x \<noteq> t) agent_order \<and>
         (\<forall>(t', a) \<in> set (agents (snd (initialize_with ctor w s))). ctor t' = Inr a)"
proof (cases t)
  case REQUIREMENTS
  with assms show ?thesis by (simp add: initialize_with_unfold agent_order_def)
next
  case PLANNING
  with assms show ?thesis by (auto simp add: initialize_with_unfold agent_order_def)
next
  case DEVELOPMENT
  with assms show ?thesis by (auto simp add: initialize_with_unfold agent_order_def)
next
  case TESTING
  with assms show ?thesis by (auto simp add: initialize_with_unfold agent_order_def)
next
  case COMMUNICATION
  with assms show ?thesis by (auto simp add: initialize_with_unfold agent_order_def)
qed

lemma initialization_failure:
  assumes "\<not> is_initialized s" and "agents s = []"
    and "\<forall>t \<in> set agent_order. ctor t = Inr (c t)"
    and "t \<in> set agent_order" and "agent_initialize w (c t) = Inl e"
    and "\<forall>t' \<in> set (takeWhile (\<lambda>x. x \<noteq> t) agent_order). \<exists>a. agent_initialize w (c t') = Inr a"
  shows "fst (initialize_with ctor w s) = Inl e \<and>
         \<not> is_initialized (snd (initialize_with ctor w s)) \<and>
         (\<forall>t' \<in> set (dropWhile (\<lambda>x. x \<noteq> t) agent_order).
            map_of (agents (snd (initialize_with ctor w s))) t' = Some (c t'))"
proof (cases t)
  case REQUIREMENTS
  with assms show ?thesis by (simp add: initialize_with_unfold agent_order_def)
next
  case PLANNING
  with assms show ?thesis by (auto simp add: initialize_with_unfold agent_order_def)
next
  case DEVELOPMENT
  with assms show ?thesis by (auto simp add: initialize_with_unfold agent_order_def)
next
  case TESTING
  with assms show ?thesis by (auto simp add: initialize_with_unfold agent_order_def)
next
  case COMMUNICATION
  with assms show ?thesis by (auto simp add: initialize_with_unfold agent_order_def)
qed

lemma initialization_success:
  assumes "\<not> is_initialized s" and "agents s = []"
    and "\<forall>t \<in> set agent_order. ctor t = Inr (c t) \<and> agent_initialize w (c t) = Inr (i t)"
  shows "fst (initialize_with ctor w s) = Inr () \<and>
         is_initialized (snd (initialize_with ctor w s)) \<and>
         agents (snd (initialize_with ctor w s)) = map (\<lambda>t. (t, i t)) agent_order \<and>
         new_events s (snd (initialize_with ctor w s)) =
           LogInitializing # map LogAgentInitialized agent_order @ [LogInitialized]"
  using assms by (simp add: initialize_with_unfold agent_order_def new_events_def)

text \<open>
  C2, as the code has it. On an orchestrator that is not initialized and has no agents,
  \<open>initialize\<close> first stores the initialized service registry, whatever happens next.
  It then constructs the five agents in the fixed order and, after all five, initializes
  them in that order. If every constructor and every \<open>initialize\<close> succeeds, the five
  initialized agents are registered in order and the orchestrator is initialized. The
  first constructor that raises ends the call with its error: only the agents before it
  are registered, as constructed, and none is initialized. The first agent
  \<open>initialize\<close> that raises ends the call with its error: that agent and those after it
  stay as constructed. In both cases the orchestrator stays uninitialized; no failure is
  recorded and no later agent is started.
\<close>

theorem initialize_stops_at_first_failure:
  assumes "\<not> is_initialized s" and "agents s = []"
  shows "mcp_manager (snd (initialize_with ctor w s)) =
           Some (fst (MCPManager_initialize w (MCPManager_new w) (ticks s))) \<and>
         ((\<forall>t \<in> set agent_order. ctor t = Inr (c t) \<and> agent_initialize w (c t) = Inr (i t)) \<longrightarrow>
            fst (initialize_with ctor w s) = Inr () \<and>
            is_initialized (snd (initialize_with ctor w s)) \<and>
            agents (snd (initialize_with ctor w s)) = map (\<lambda>t. (t, i t)) agent_order \<and>
            new_events s (snd (initialize_with ctor w s)) =
              LogInitializing # map LogAgentInitialized agent_order @ [LogInitialized]) \<and>
         (t \<in> set agent_order \<and> ctor t = Inl e \<and>
          (\<forall>t' \<in> set (takeWhile (\<lambda>x. x \<noteq> t) agent_order). \<exists>a. ctor t' = Inr a) \<longrightarrow>
            fst (initialize_with ctor w s) = Inl e \<and>
            \<not> is_initialized (snd (initialize_with ctor w s)) \<and>
            map fst (agents (snd (initialize_with ctor w s))) =
              takeWhile (\<lambda>x. x \<noteq> t) agent_order \<and>
            (\<forall>(t', a) \<in> set (agents (snd (initialize_with ctor w s))). ctor t' = Inr a)) \<and>
         ((\<forall>t \<in> set agent_order. ctor t = Inr (c t)) \<and>
          t \<in> set agent_order \<and> agent_initialize w (c t) = Inl e \<and>
          (\<forall>t' \<in> set (takeWhile (\<lambda>x. x \<noteq> t) agent_order).
             \<exists>a. agent_initialize w (c t') = Inr a) \<longrightarrow>
            fst (initialize_with ctor w s) = Inl e \<and>
            \<not> is_initialized (snd (initialize_with ctor w s)) \<and>
            (\<forall>t' \<in> set (dropWhile (\<lambda>x. x \<noteq> t) agent_order).
               map_of (agents (snd (initialize_with ctor w s))) t' = Some (c t')))"
proof -
  have reg: "mcp_manager (snd (initialize_with ctor w s)) =
           Some (fst (MCPManager_initialize w (MCPManager_new w) (ticks s)))"
    by (rule initialize_registry_first [OF assms(1)])
  have ok: "(\<forall>t \<in> set agent_order. ctor t = Inr (c t) \<and> agent_initialize w (c t) = Inr (i t)) \<longrightarrow>
            fst (initialize_with ctor w s) = Inr () \<and>
            is_initialized (snd (initialize_with ctor w s)) \<and>
            agents (snd (initialize_with ctor w s)) = map (\<lambda>t. (t, i t)) agent_order \<and>
            new_events s (snd (initialize_with ctor w s)) =
              LogInitializing # map LogAgentInitialized agent_order @ [LogInitialized]"
  proof
    assume "\<forall>t \<in> set agent_order. ctor t = Inr (c t) \<and> agent_initialize w (c t) = Inr (i t)"
    then show "fst (initialize_with ctor w s) = Inr () \<and>
            is_initialized (snd (initialize_with ctor w s)) \<and>
            agents (snd (initialize_with ctor w s)) = map (\<lambda>t. (t, i t)) agent_order \<and>
            new_events s (snd (initialize_with ctor w s)) =
              LogInitializing # map LogAgentInitialized agent_order @ [LogInitialized]"
      by (rule initialization_success [OF assms])
  qed
  have con: "t \<in> set agent_order \<and> ctor t = Inl e \<and>
          (\<forall>t' \<in> set (takeWhile (\<lambda>x. x \<noteq> t) agent_order). \<exists>a. ctor t' = Inr a) \<longrightarrow>
            fst (initialize_with ctor w s) = Inl e \<and>
            \<not> is_initialized (snd (initialize_with ctor w s)) \<and>
            map fst (agents (snd (initialize_with ctor w s))) =
              takeWhile (\<lambda>x. x \<noteq> t) agent_order \<and>
            (\<forall>(t', a) \<in> set (agents (snd (initialize_with ctor w s))). ctor t' = Inr a)"
  proof
    assume h: "t \<in> set agent_order \<and> ctor t = Inl e \<and>
          (\<forall>t' \<in> set (takeWhile (\<lambda>x. x \<noteq> t) agent_order). \<exists>a. ctor t' = Inr a)"
    show "fst (initialize_with ctor w s) = Inl e \<and>
            \<not> is_initialized (snd (initialize_with ctor w s)) \<and>
            map fst (agents (snd (initialize_with ctor w s))) =
              takeWhile (\<lambda>x. x \<noteq> t) agent_order \<and>
            (\<forall>(t', a) \<in> set (agents (snd (initialize_with ctor w s))). ctor t' = Inr a)"
      by (rule construction_failure [OF assms conjunct1 [OF h] conjunct1 [OF conjunct2 [OF h]]
            conjunct2 [OF conjunct2 [OF h]]])
  qed
  have ini: "(\<forall>t \<in> set agent_order. ctor t = Inr (c t)) \<and>
          t \<in> set agent_order \<and> agent_initialize w (c t) = Inl e \<and>
          (\<forall>t' \<in> set (takeWhile (\<lambda>x. x \<noteq> t) agent_order).
             \<exists>a. agent_initialize w (c t') = Inr a) \<longrightarrow>
            fst (initialize_with ctor w s) = Inl e \<and>
            \<not> is_initialized (snd (initialize_with ctor w s)) \<and>
            (\<forall>t' \<in> set (dropWhile (\<lambda>x. x \<noteq> t) agent_order).
               map_of (agents (snd (initialize_with ctor w s))) t' = Some (c t'))"
  proof
    assume h: "(\<forall>t \<in> set agent_order. ctor t = Inr (c t)) \<and>
          t \<in> set agent_order \<and> agent_initialize w (c t) = Inl e \<and>
          (\<forall>t' \<in> set (takeWhile (\<lambda>x. x \<noteq> t) agent_order).
             \<exists>a. agent_initialize w (c t') = Inr a)"
    show "fst (initialize_with ctor w s) = Inl e \<and>
            \<not> is_initialized (snd (initialize_with ctor w s)) \<and>
            (\<forall>t' \<in> set (dropWhile (\<lambda>x. x \<noteq> t) agent_order).
               map_of (agents (snd (initialize_with ctor w s))) t' = Some (c t'))"
      by (rule initialization_failure [OF assms conjunct1 [OF h] conjunct1 [OF conjunct2 [OF h]]
            conjunct1 [OF conjunct2 [OF conjunct2 [OF h]]]
            conjunct2 [OF conjunct2 [OF conjunct2 [OF h]]]])
  qed
  from reg ok con ini show ?thesis by (intro conjI)
qed

lemma demo_world_genai: "\<not> gemini_api_key demo_world"
  by (simp add: demo_world_def)

theorem initialize_stops_at_first_failure_witness:
  "\<not> is_initialized AgentManager_new \<and> agents AgentManager_new = [] \<and>
   PLANNING \<in> set agent_order \<and>
   construct_agent PLANNING =
     Inl (Exn TypeError ''PlanningAgent.__init__() takes 1 positional argument but 2 were given'') \<and>
   takeWhile (\<lambda>x. x \<noteq> PLANNING) agent_order = [REQUIREMENTS] \<and>
   construct_agent REQUIREMENTS = Inr (RequirementsAgent False False) \<and>
   fst (initialize_with construct_agent demo_world AgentManager_new) =
     Inl (Exn TypeError ''PlanningAgent.__init__() takes 1 positional argument but 2 were given'') \<and>
   map fst (agents (snd (initialize_with construct_agent demo_world AgentManager_new))) =
     [REQUIREMENTS] \<and>
   map accepting_construct_agent agent_order = map (\<lambda>t. Inr (fresh_agent t)) agent_order \<and>
   map (\<lambda>t. agent_initialize demo_world (fresh_agent t)) agent_order =
     map (\<lambda>t. Inr (ready_agent t)) agent_order \<and>
   fst (initialize_with accepting_construct_agent demo_world AgentManager_new) = Inr () \<and>
   agents (snd (initialize_with accepting_construct_agent demo_world AgentManager_new)) =
     agents full_manager"
proof -
  let ?e = "Exn TypeError ''PlanningAgent.__init__() takes 1 positional argument but 2 were given''"
  have h1: "\<not> is_initialized AgentManager_new" and h2: "agents AgentManager_new = []"
    by (simp_all add: AgentManager_new_def)
  have p: "PLANNING \<in> set agent_order \<and> construct_agent PLANNING = Inl ?e \<and>
           (\<forall>t' \<in> set (takeWhile (\<lambda>x. x \<noteq> PLANNING) agent_order). \<exists>a. construct_agent t' = Inr a)"
    by (simp add: agent_order_def)
  have q: "\<forall>t \<in> set agent_order. accepting_construct_agent t = Inr (fresh_agent t) \<and>
             agent_initialize demo_world (fresh_agent t) = Inr (ready_agent t)"
    by (simp add: agent_order_def accepting_construct_agent_def demo_world_genai)
  note T1 = initialize_stops_at_first_failure [OF h1 h2, where ctor = construct_agent
      and w = demo_world and t = PLANNING and e = ?e and c = fresh_agent and i = ready_agent]
  note T2 = initialize_stops_at_first_failure [OF h1 h2, where ctor = accepting_construct_agent
      and w = demo_world and t = PLANNING and e = ?e and c = fresh_agent and i = ready_agent]
  have r1: "fst (initialize_with construct_agent demo_world AgentManager_new) = Inl ?e \<and>
            map fst (agents (snd (initialize_with construct_agent demo_world AgentManager_new))) =
              takeWhile (\<lambda>x. x \<noteq> PLANNING) agent_order"
    using mp [OF T1 [THEN conjunct2, THEN conjunct2, THEN conjunct1] p] by simp
  have r2: "fst (initialize_with accepting_construct_agent demo_world AgentManager_new) = Inr () \<and>
            agents (snd (initialize_with accepting_construct_agent demo_world AgentManager_new)) =
              map (\<lambda>t. (t, ready_agent t)) agent_order"
    using mp [OF T2 [THEN conjunct2, THEN conjunct1] q] by simp
  show ?thesis
    using h1 h2 p q r1 r2
    by (simp add: agent_order_def full_manager_def AgentManager_new_def
          accepting_construct_agent_def)
qed

lemma failing_genai_fields:
  "gemini_api_key failing_genai_world" 
  "genai_configure failing_genai_world = Some (Exn Exception ''invalid API key'')"
  by (simp_all add: failing_genai_world_def)

text \<open>
  C2 as stated fails. On a new orchestrator \<open>initialize\<close> raises the \<open>TypeError\<close> of
  the \<open>PlanningAgent\<close> constructor: only the requirements agent is registered, no agent
  is initialized and the development, testing and communication agents do not exist.
  With constructors that all succeed, an exception of the first agent's \<open>initialize\<close>
  ends the call as well and leaves the four other agents uninitialized.
\<close>

theorem initialize_aborts_on_agent_failure:
  "fst (initialize demo_world AgentManager_new) =
     Inl (Exn TypeError ''PlanningAgent.__init__() takes 1 positional argument but 2 were given'') \<and>
   agents (snd (initialize demo_world AgentManager_new)) =
     [(REQUIREMENTS, RequirementsAgent False False)] \<and>
   \<not> is_initialized (snd (initialize demo_world AgentManager_new)) \<and>
   fst (initialize_with accepting_construct_agent failing_genai_world AgentManager_new) =
     Inl (Exn Exception ''invalid API key'') \<and>
   agents (snd (initialize_with accepting_construct_agent failing_genai_world AgentManager_new)) =
     [(REQUIREMENTS, RequirementsAgent False False), (PLANNING, PlanningAgent False),
      (DEVELOPMENT, DevelopmentAgent False), (TESTING, TestingAgent False),
      (COMMUNICATION, CommunicationAgent False)]"
  by (simp add: initialize_def initialize_with_unfold AgentManager_new_def agent_order_def
        accepting_construct_agent_def failing_genai_fields)

end
